theory Spec2Isabelle
  imports Complex_Main
begin

section \<open>Values\<close>

text \<open>
  A numeric array (numpy array, pennylane tensor data, tensorflow tensor data) is a nested
  list of numbers; a 0-d array is \<open>Scalar\<close>. A number is the real value of a finite float;
  the product and the sum that \<open>predict_proba\<close> computes are rounded to float64.
\<close>

datatype ndarray = Scalar real | Nd "ndarray list"

text \<open>
  Rounding to the nearest float64, ties to the even significand: 53 significant bits, and
  the smallest exponent is that of the subnormal numbers. Overflow does not arise from the
  values this model rounds.
\<close>

definition float_exponent :: "real \<Rightarrow> int" where
  "float_exponent x = max \<lfloor>log 2 \<bar>x\<bar>\<rfloor> (- 1022)"

definition round_half_even :: "real \<Rightarrow> int" where
  "round_half_even q =
     (let n = \<lfloor>q\<rfloor>; r = q - of_int n in
      if r < 1 / 2 then n else if 1 / 2 < r then n + 1 else if even n then n else n + 1)"

definition ulp :: "real \<Rightarrow> real" where
  "ulp x = 2 powr real_of_int (float_exponent x - 52)"

definition float64 :: "real \<Rightarrow> real" where
  "float64 x = (if x = 0 then 0 else real_of_int (round_half_even (x / ulp x)) * ulp x)"

text \<open>An elementwise operation with a broadcast scalar, as in \<open>0.5 + 0.5 * a\<close>.\<close>

fun map_nd :: "(real \<Rightarrow> real) \<Rightarrow> ndarray \<Rightarrow> ndarray" where
  "map_nd f (Scalar x) = Scalar (f x)"
| "map_nd f (Nd xs) = Nd (map (map_nd f) xs)"

fun flat :: "ndarray \<Rightarrow> real list" where
  "flat (Scalar x) = [x]"
| "flat (Nd xs) = concat (map flat xs)"

text \<open>\<open>np.linalg.norm\<close> of an array: the Euclidean norm of its flattened elements.\<close>

definition linalg_norm :: "ndarray \<Rightarrow> real" where
  "linalg_norm g = sqrt (sum_list (map (\<lambda>x. x * x) (flat g)))"

text \<open>
  The values the attribute \<open>var\<close> and the local \<open>var\<close> take: a pennylane tensor with its
  \<open>requires_grad\<close> flag, a plain numpy array (which has no such attribute), a
  \<open>tf.Variable\<close>, a plain tensorflow tensor, a Python list and a Python tuple.
\<close>

datatype weights =
    NpTensor bool ndarray
  | NpArray ndarray
  | TfVariable ndarray
  | TfTensor ndarray
  | PyList "weights list"
  | PyTuple "weights list"

datatype error =
    ValueError string
  | UnboundLocalError string
  | TypeError string
  | AttributeError string
  | ZeroDivisionError
  | FileNotFoundError string

text \<open>\<open>np.array(v)\<close>: the array with the same elements.\<close>

fun to_ndarray :: "weights \<Rightarrow> ndarray" where
  "to_ndarray (NpTensor b a) = a"
| "to_ndarray (NpArray a) = a"
| "to_ndarray (TfVariable a) = a"
| "to_ndarray (TfTensor a) = a"
| "to_ndarray (PyList vs) = Nd (map to_ndarray vs)"
| "to_ndarray (PyTuple vs) = Nd (map to_ndarray vs)"

text \<open>
  Iterating a value (\<open>list(v)\<close>, \<open>*v\<close>, tuple unpacking): an array or a tensor gives its rows
  (a \<open>tf.Variable\<close> as in eager execution), and a 0-d array is not iterable.
\<close>

fun iter_weights :: "weights \<Rightarrow> error + weights list" where
  "iter_weights (NpTensor b (Nd xs)) = Inr (map (NpTensor b) xs)"
| "iter_weights (NpTensor b (Scalar x)) = Inl (TypeError ''iteration over a 0-d array'')"
| "iter_weights (NpArray (Nd xs)) = Inr (map NpArray xs)"
| "iter_weights (NpArray (Scalar x)) = Inl (TypeError ''iteration over a 0-d array'')"
| "iter_weights (TfVariable (Nd xs)) = Inr (map TfTensor xs)"
| "iter_weights (TfVariable (Scalar x)) = Inl (TypeError ''iteration over a 0-d tensor'')"
| "iter_weights (TfTensor (Nd xs)) = Inr (map TfTensor xs)"
| "iter_weights (TfTensor (Scalar x)) = Inl (TypeError ''iteration over a 0-d tensor'')"
| "iter_weights (PyList vs) = Inr vs"
| "iter_weights (PyTuple vs) = Inr vs"

text \<open>The first error of a list of results, or all the values.\<close>

fun collect :: "(error + 'a) list \<Rightarrow> error + 'a list" where
  "collect [] = Inr []"
| "collect (r # rs) =
     (case r of Inl e \<Rightarrow> Inl e
      | Inr x \<Rightarrow> (case collect rs of Inl e \<Rightarrow> Inl e | Inr xs \<Rightarrow> Inr (x # xs)))"

section \<open>Configuration, collaborators and model state\<close>

text \<open>
  The attributes a model reads from its parameter dictionary and never changes afterwards.
  \<open>layerwise_learning_period\<close> is \<open>None\<close> for the default string \<open>"default"\<close>.
\<close>

record config =
  prefix :: string
  interface :: string
  architecture :: string
  type_problem :: string
  training_type :: string
  layerwise_learning_period :: "int option"
  num_layers :: int
  max_iterations :: int
  batch_size :: int
  snapshot_frequency :: int
  early_stopper_patience :: int

definition layerwise_learning :: "config \<Rightarrow> bool" where
  "layerwise_learning c = (training_type c = ''layerwise'')"

text \<open>
  The state of an optimizer object (step count, moment accumulators) and of the early
  stopper (the calls of \<open>update\<close> it has received, oldest first).
\<close>

type_synonym opt_state = "ndarray list"
type_synonym stopper = "(real \<times> weights) list"
type_synonym objective = "weights list \<Rightarrow> error + ndarray"

text \<open>
  What the class uses and does not define: the circuit (the QNode), the loss functions of
  \<open>utilities.losses\<close>, numpy and tensorflow reductions, the optimizers, autograd's
  gradient, the gradient tape, the random batch, \<open>to_categorical\<close> and the early stopper.
  They are parameters of the model.
\<close>

record env =
  neural_network :: "weights \<Rightarrow> ndarray \<Rightarrow> ndarray"
  square_loss :: "ndarray \<Rightarrow> ndarray \<Rightarrow> ndarray"
  cross_entropy :: "ndarray \<Rightarrow> ndarray \<Rightarrow> ndarray"
  np_sum_axis1 :: "ndarray \<Rightarrow> ndarray"
  np_divide :: "ndarray \<Rightarrow> ndarray \<Rightarrow> ndarray"
  np_mean :: "ndarray \<Rightarrow> ndarray"
  np_argmax_axis1 :: "ndarray \<Rightarrow> ndarray"
  tf_losses_MSE :: "ndarray \<Rightarrow> ndarray \<Rightarrow> ndarray"
  tf_reduce_mean :: "bool \<Rightarrow> ndarray \<Rightarrow> ndarray"
  tf_softmax_cross_entropy_with_logits :: "ndarray \<Rightarrow> ndarray \<Rightarrow> ndarray"
  tf_nn_softmax :: "ndarray \<Rightarrow> ndarray"
  optimizer_step :: "opt_state \<Rightarrow> objective \<Rightarrow> weights list \<Rightarrow> error + weights \<times> opt_state"
  get_gradient :: "objective \<Rightarrow> weights list \<Rightarrow> error + ndarray"
  tape_gradient :: "objective \<Rightarrow> weights list \<Rightarrow> ndarray list"
  apply_gradients :: "opt_state \<Rightarrow> (ndarray \<times> weights) list \<Rightarrow> weights list \<times> opt_state"
  get_random_batch :: "nat \<Rightarrow> ndarray list \<Rightarrow> ndarray \<Rightarrow> int \<Rightarrow> ndarray list \<times> ndarray"
  to_categorical :: "ndarray \<Rightarrow> ndarray option \<Rightarrow> ndarray \<times> ndarray"
  es_update :: "stopper \<Rightarrow> bool"
  es_get_best_var :: "stopper \<Rightarrow> weights"

text \<open>What a training run does that the outside can see.\<close>

datatype event =
    Stepped int
  | Updated int bool
  | Snapshotted bool string
  | Plotted int

text \<open>
  The attributes that change: \<open>files\<close> is the file system (an archive is its list of named
  arrays), \<open>rng\<close> counts the random batches drawn, \<open>trace\<close> is the history of events.
\<close>

record model =
  built :: bool
  iteration :: int
  var :: weights
  optimizer :: opt_state
  early_stopper :: "stopper option"
  files :: "string \<rightharpoonup> (string \<times> ndarray) list"
  rng :: nat
  trace :: "event list"

section \<open>Cost\<close>

text \<open>\<open>np.exp\<close> is elementwise.\<close>

definition np_exp :: "ndarray \<Rightarrow> ndarray" where
  "np_exp a = map_nd exp a"

text \<open>
  \<open>cost(features, labels, var)\<close> (lines 175 to 217). No branch assigns \<open>loss\<close> for another interface or another
  problem type, and \<open>return loss\<close> then raises \<open>UnboundLocalError\<close>.
\<close>

definition cost :: "env \<Rightarrow> config \<Rightarrow> ndarray list \<Rightarrow> ndarray \<Rightarrow> weights \<Rightarrow> error + ndarray" where
  "cost E c features labels v =
     (let model_output = Nd (map (neural_network E v) features) in
      if interface c = ''autograd'' then
        if type_problem c = ''regression'' then Inr (square_loss E labels model_output)
        else if type_problem c = ''classification'' then Inr (square_loss E labels model_output)
        else if type_problem c = ''multiclassification'' then
          (let preds = np_divide E (np_exp model_output) (np_sum_axis1 E (np_exp model_output))
           in Inr (cross_entropy E labels preds))
        else if type_problem c = ''reinforcement_learning'' then
          Inr (np_mean E (square_loss E labels model_output))
        else Inl (UnboundLocalError ''loss'')
      else if interface c = ''tf'' then
        if type_problem c = ''regression'' then
          Inr (tf_reduce_mean E False (tf_losses_MSE E labels model_output))
        else if type_problem c = ''classification'' then
          Inr (tf_reduce_mean E False (tf_losses_MSE E labels model_output))
        else if type_problem c = ''multiclassification'' then
          Inr (tf_reduce_mean E True
                 (tf_softmax_cross_entropy_with_logits E labels model_output))
        else if type_problem c = ''reinforcement_learning'' then
          Inr (tf_reduce_mean E False (tf_losses_MSE E labels model_output))
        else Inl (UnboundLocalError ''loss'')
      else Inl (UnboundLocalError ''loss''))"

section \<open>Prediction\<close>

text \<open>\<open>predict(features)\<close> (qnn_pennylane.py, lines 379 to 399).\<close>

definition predict :: "env \<Rightarrow> config \<Rightarrow> model \<Rightarrow> ndarray list \<Rightarrow> ndarray" where
  "predict E c m features =
     (let model_output = Nd (map (neural_network E (var m)) features) in
      if type_problem c = ''classification'' then
        map_nd (\<lambda>x. if x > 0 then 1 else 0) model_output
      else if type_problem c = ''multiclassification'' then
        (let soft_outputs =
               np_divide E (np_exp model_output) (np_sum_axis1 E (np_exp model_output))
         in np_argmax_axis1 E soft_outputs)
      else model_output)"

text \<open>
  \<open>predict_proba(features)\<close> (lines 401 to 431). The product and the sum of
  \<open>0.5 + 0.5 * model_output\<close> are each rounded.
\<close>

definition predict_proba :: "env \<Rightarrow> config \<Rightarrow> model \<Rightarrow> ndarray list \<Rightarrow> error + ndarray" where
  "predict_proba E c m features =
     (let model_output = Nd (map (neural_network E (var m)) features) in
      if type_problem c = ''classification'' then
        Inr (map_nd (\<lambda>x. float64 (0.5 + float64 (0.5 * x))) model_output)
      else if type_problem c = ''multiclassification'' then
        if interface c = ''autograd'' then
          Inr (np_divide E (np_exp model_output) (np_sum_axis1 E (np_exp model_output)))
        else if interface c = ''tf'' then Inr (tf_nn_softmax E model_output)
        else Inl (UnboundLocalError ''predicted_probabilities'')
      else if type_problem c \<in> {''regression'', ''reinforcement_learning''} then
        Inl (ValueError
          ''Cannot predict probabilities when type_problem is set to: regression or reinforcement_learning'')
      else Inl (UnboundLocalError ''predicted_probabilities''))"

section \<open>Snapshots\<close>

text \<open>\<open>str(n)\<close> for an integer: its decimal digits.\<close>

function str_nat :: "nat \<Rightarrow> string" where
  "str_nat n =
     (if n < 10 then [char_of (48 + n)]
      else str_nat (n div 10) @ [char_of (48 + n mod 10)])"
  by pat_completeness auto
termination
  by (relation "measure id") auto

declare str_nat.simps [simp del]

definition str_int :: "int \<Rightarrow> string" where
  "str_int i = (if i < 0 then CHR ''-'' # str_nat (nat (- i)) else str_nat (nat i))"

text \<open>The method \<open>numpy()\<close> of a tensor; a plain array, a list or a tuple has none.\<close>

fun numpy :: "weights \<Rightarrow> error + ndarray" where
  "numpy (NpTensor b a) = Inr a"
| "numpy (NpArray a) = Inl (AttributeError ''numpy'')"
| "numpy (TfVariable a) = Inr a"
| "numpy (TfTensor a) = Inr a"
| "numpy (PyList vs) = Inl (AttributeError ''numpy'')"
| "numpy (PyTuple vs) = Inl (AttributeError ''numpy'')"

fun unpack_array :: "ndarray \<Rightarrow> error + ndarray list" where
  "unpack_array (Nd xs) = Inr xs"
| "unpack_array (Scalar x) = Inl (TypeError ''iteration over a 0-d array'')"

definition snapshot_file :: "config \<Rightarrow> model \<Rightarrow> bool \<Rightarrow> string" where
  "snapshot_file c m is_best =
     (if \<not> is_best then prefix c @ ''_weights_'' @ str_int (iteration m) @ ''.npz''
      else prefix c @ ''_best_weights.npz'')"

text \<open>The arrays that \<open>*tosave\<close> hands to \<open>np.savez\<close>, one per item of \<open>tosave\<close>.\<close>

definition tosave :: "config \<Rightarrow> model \<Rightarrow> error + ndarray list" where
  "tosave c m =
     (if interface c = ''tf'' then
        if architecture c = ''cv'' then
          (case iter_weights (var m) of Inl e \<Rightarrow> Inl e
           | Inr vs \<Rightarrow> collect (map numpy vs))
        else (case numpy (var m) of Inl e \<Rightarrow> Inl e | Inr a \<Rightarrow> unpack_array a)
      else if interface c = ''autograd'' then
        (case iter_weights (var m) of Inl e \<Rightarrow> Inl e
         | Inr vs \<Rightarrow> Inr (map to_ndarray vs))
      else Inl (UnboundLocalError ''tosave''))"

text \<open>\<open>np.savez\<close> names its positional arrays \<open>arr_0\<close>, \<open>arr_1\<close>, ... in order.\<close>

definition savez :: "ndarray list \<Rightarrow> (string \<times> ndarray) list" where
  "savez arrays = map (\<lambda>(i, a). (''arr_'' @ str_nat i, a)) (List.enumerate 0 arrays)"

text \<open>\<open>snapshot(is_best)\<close> (lines 139 to 155).\<close>

definition snapshot :: "config \<Rightarrow> model \<Rightarrow> bool \<Rightarrow> error + model" where
  "snapshot c m is_best =
     (let current_file = snapshot_file c m is_best in
      case tosave c m of Inl e \<Rightarrow> Inl e
      | Inr arrays \<Rightarrow>
          Inr (m\<lparr>files := (files m)(current_file \<mapsto> savez arrays),
                 trace := trace m @ [Snapshotted is_best current_file]\<rparr>))"

text \<open>
  \<open>load_weights(weights_file)\<close> (lines 157 to 173). With autograd \<open>var\<close> is left as the list
  of the plain arrays that \<open>np.load\<close> returned.
\<close>

definition load_weights :: "config \<Rightarrow> model \<Rightarrow> string \<Rightarrow> error + model" where
  "load_weights c m weights_file =
     (case files m weights_file of
        None \<Rightarrow> Inl (FileNotFoundError weights_file)
      | Some weights_dict \<Rightarrow>
          (let weights_list = map snd weights_dict in
           if interface c = ''tf'' then
             if architecture c = ''cv'' then
               Inr (m\<lparr>var := PyList (map TfVariable weights_list)\<rparr>)
             else Inr (m\<lparr>var := TfVariable (Nd weights_list)\<rparr>)
           else Inr (m\<lparr>var := PyList (map NpArray weights_list)\<rparr>)))"

section \<open>One step of training\<close>

text \<open>What \<open>step\<close> returns: the pair \<open>var, norm\<close> or \<open>var\<close> alone.\<close>

datatype step_result = RetPair weights real | RetVar weights

text \<open>The index \<open>i\<close> of the layer that layer-wise training leaves differentiable.\<close>

definition layer_index :: "config \<Rightarrow> model \<Rightarrow> error + int" where
  "layer_index c m =
     (if num_layers c = 0 then Inl ZeroDivisionError
      else Inr ((iteration m div 20) mod num_layers c))"

fun set_requires_grad :: "bool \<Rightarrow> weights \<Rightarrow> error + weights" where
  "set_requires_grad b (NpTensor b0 a) = Inr (NpTensor b a)"
| "set_requires_grad b (NpArray a) = Inl (AttributeError ''requires_grad'')"
| "set_requires_grad b (TfVariable a) = Inr (TfVariable a)"
| "set_requires_grad b (TfTensor a) = Inr (TfTensor a)"
| "set_requires_grad b (PyList vs) = Inl (AttributeError ''requires_grad'')"
| "set_requires_grad b (PyTuple vs) = Inl (AttributeError ''requires_grad'')"

text \<open>The loop \<open>for j in range(len(var))\<close> that sets every flag.\<close>

definition set_flags :: "int \<Rightarrow> weights list \<Rightarrow> error + weights list" where
  "set_flags i vs =
     collect (map (\<lambda>(j, v). set_requires_grad (int j = i) v) (List.enumerate 0 vs))"

text \<open>The two closures \<open>objective_cost\<close>: with \<open>*v\<close> the cost receives the tuple of arguments.\<close>

definition objective_cost_layerwise :: "env \<Rightarrow> config \<Rightarrow> ndarray list \<Rightarrow> ndarray \<Rightarrow> objective" where
  "objective_cost_layerwise E c features labels = (\<lambda>args. cost E c features labels (PyTuple args))"

definition objective_cost :: "env \<Rightarrow> config \<Rightarrow> ndarray list \<Rightarrow> ndarray \<Rightarrow> objective" where
  "objective_cost E c features labels =
     (\<lambda>args. case args of
        [v] \<Rightarrow> cost E c features labels v
      | _ \<Rightarrow> Inl (TypeError ''objective_cost() takes 1 positional argument''))"

text \<open>The layer-wise branch of \<open>step\<close> (lines 229 to 246).\<close>

definition step_layerwise ::
  "env \<Rightarrow> config \<Rightarrow> model \<Rightarrow> ndarray list \<Rightarrow> ndarray \<Rightarrow> weights \<Rightarrow> bool \<Rightarrow> error + step_result \<times> model" where
  "step_layerwise E c m features labels v norm_grad =
     (case iter_weights v of Inl e \<Rightarrow> Inl e
      | Inr vs \<Rightarrow>
     (case layer_index c m of Inl e \<Rightarrow> Inl e
      | Inr i \<Rightarrow>
     (case set_flags i vs of Inl e \<Rightarrow> Inl e
      | Inr flagged \<Rightarrow>
     (case optimizer_step E (optimizer m) (objective_cost_layerwise E c features labels) flagged of
        Inl e \<Rightarrow> Inl e
      | Inr (stepped, opt) \<Rightarrow>
          (let v' = NpTensor True (to_ndarray stepped); m' = m\<lparr>optimizer := opt\<rparr> in
           if norm_grad then
             (case get_gradient E (objective_cost_layerwise E c features labels) [v'] of
                Inl e \<Rightarrow> Inl e
              | Inr g \<Rightarrow> Inr (RetPair v' (linalg_norm g), m'))
           else Inr (RetVar v', m'))))))"

text \<open>The default branch of \<open>step\<close> with autograd (lines 248 to 256).\<close>

definition step_default ::
  "env \<Rightarrow> config \<Rightarrow> model \<Rightarrow> ndarray list \<Rightarrow> ndarray \<Rightarrow> weights \<Rightarrow> bool \<Rightarrow> error + step_result \<times> model" where
  "step_default E c m features labels v norm_grad =
     (case optimizer_step E (optimizer m) (objective_cost E c features labels) [v] of
        Inl e \<Rightarrow> Inl e
      | Inr (v', opt) \<Rightarrow>
          (let m' = m\<lparr>optimizer := opt\<rparr> in
           if norm_grad then
             (case get_gradient E (objective_cost E c features labels) [v'] of
                Inl e \<Rightarrow> Inl e
              | Inr g \<Rightarrow> Inr (RetPair v' (linalg_norm g), m'))
           else Inr (RetVar v', m')))"

text \<open>
  The tensorflow branch: the tape records the cost, the optimizer updates the variables in
  place, and \<open>var\<close> (the same object, now updated) is returned alone, whatever \<open>norm_grad\<close> is.
\<close>

definition step_tf ::
  "env \<Rightarrow> config \<Rightarrow> model \<Rightarrow> ndarray list \<Rightarrow> ndarray \<Rightarrow> weights \<Rightarrow> error + step_result \<times> model" where
  "step_tf E c m features labels v =
     (case cost E c features labels v of Inl e \<Rightarrow> Inl e
      | Inr loss \<Rightarrow>
     (case v of
        TfVariable a \<Rightarrow>
          (let gradients = tape_gradient E (objective_cost E c features labels) [v];
               (updated, opt) = apply_gradients E (optimizer m) (zip gradients [v])
           in Inr (RetVar (case updated of [] \<Rightarrow> v | v' # _ \<Rightarrow> v'), m\<lparr>optimizer := opt\<rparr>))
      | PyList vs \<Rightarrow>
          (let gradients = tape_gradient E (objective_cost_layerwise E c features labels) vs;
               (updated, opt) = apply_gradients E (optimizer m) (zip gradients vs)
           in Inr (RetVar (PyList updated), m\<lparr>optimizer := opt\<rparr>))
      | PyTuple vs \<Rightarrow>
          (let gradients = tape_gradient E (objective_cost_layerwise E c features labels) vs;
               (updated, opt) = apply_gradients E (optimizer m) (zip gradients vs)
           in Inr (RetVar (PyTuple updated), m\<lparr>optimizer := opt\<rparr>))
      | _ \<Rightarrow> Inl (TypeError ''gradient sources'')))"

text \<open>\<open>step(features, labels, var, norm_grad)\<close> (lines 219 to 271).\<close>

definition step ::
  "env \<Rightarrow> config \<Rightarrow> model \<Rightarrow> ndarray list \<Rightarrow> ndarray \<Rightarrow> weights \<Rightarrow> bool \<Rightarrow> error + step_result \<times> model" where
  "step E c m features labels v norm_grad =
     (if interface c = ''autograd'' then
        if layerwise_learning c then step_layerwise E c m features labels v norm_grad
        else step_default E c m features labels v norm_grad
      else if interface c = ''tf'' then step_tf E c m features labels v
      else Inr (RetVar v, m))"

section \<open>The training loop\<close>

text \<open>
  The arguments of \<open>fit\<close>. Validation labels come with validation features, so both are one
  optional pair; \<open>plotter_callback\<close> says whether a callback was given. The callback and the
  logger only observe the model.
\<close>

record fit_args =
  train_features :: "ndarray list"
  train_labels :: ndarray
  plotter_callback :: bool
  val :: "(ndarray list \<times> ndarray) option"
  verbose :: bool

text \<open>\<open>np.asscalar(np.array(loss))\<close>: the single element of an array of size one.\<close>

fun asscalar :: "ndarray \<Rightarrow> error + real" where
  "asscalar (Scalar x) = Inr x"
| "asscalar (Nd [a]) = asscalar a"
| "asscalar (Nd xs) = Inl (ValueError ''can only convert an array of size 1 to a Python scalar'')"

definition draw_batch :: "env \<Rightarrow> config \<Rightarrow> fit_args \<Rightarrow> model \<Rightarrow> (ndarray list \<times> ndarray) \<times> model" where
  "draw_batch E c A m =
     (if batch_size c > 1 then
        (get_random_batch E (rng m) (train_features A) (train_labels A) (batch_size c),
         m\<lparr>rng := Suc (rng m)\<rparr>)
      else ((train_features A, train_labels A), m))"

text \<open>
  The assignment \<open>var, norm_g = self.step(...)\<close>: a pair gives its first component; anything
  else is iterated and must have exactly two items.
\<close>

definition unpack_pair :: "step_result \<Rightarrow> error + weights" where
  "unpack_pair r =
     (case r of
        RetPair v g \<Rightarrow> Inr v
      | RetVar v \<Rightarrow>
          (case iter_weights v of Inl e \<Rightarrow> Inl e
           | Inr [a, b] \<Rightarrow> Inr a
           | Inr _ \<Rightarrow> Inl (ValueError ''unpack'')))"

text \<open>
  The early-stopper block of an iteration: the validation cost, and \<open>update\<close> when a stopper
  exists and the iteration is past twice the patience. The result is \<open>stopping_criterion\<close>.
\<close>

definition validate :: "env \<Rightarrow> config \<Rightarrow> fit_args \<Rightarrow> model \<Rightarrow> weights \<Rightarrow> model \<times> (error + bool)" where
  "validate E c A m v =
     (case val A of
        None \<Rightarrow> (m, Inr False)
      | Some (val_features, val_labels) \<Rightarrow>
          (case cost E c val_features val_labels v of Inl e \<Rightarrow> (m, Inl e)
           | Inr l \<Rightarrow>
          (case asscalar l of Inl e \<Rightarrow> (m, Inl e)
           | Inr val_loss \<Rightarrow>
          (case early_stopper m of
             None \<Rightarrow> (m, Inr False)
           | Some calls \<Rightarrow>
               if iteration m > 2 * early_stopper_patience c then
                 (let calls' = calls @ [(val_loss, v)];
                      stop = es_update E calls'
                  in (m\<lparr>early_stopper := Some calls',
                        trace := trace m @ [Updated (iteration m) stop]\<rparr>, Inr stop))
               else (m, Inr False)))))"

text \<open>The training loss computed for the log when \<open>verbose\<close> is set.\<close>

definition report :: "env \<Rightarrow> config \<Rightarrow> fit_args \<Rightarrow> ndarray list \<Rightarrow> ndarray \<Rightarrow> weights \<Rightarrow> error option" where
  "report E c A x_train y_train v =
     (if verbose A then
        (case cost E c x_train y_train v of Inl e \<Rightarrow> Some e
         | Inr l \<Rightarrow> (case asscalar l of Inl e \<Rightarrow> Some e | Inr train_loss \<Rightarrow> None))
      else None)"

definition periodic_snapshot :: "config \<Rightarrow> model \<Rightarrow> error + model" where
  "periodic_snapshot c m =
     (if snapshot_frequency c > 0 \<and> iteration m mod snapshot_frequency c = 0
      then snapshot c m False else Inr m)"

definition plot :: "fit_args \<Rightarrow> model \<Rightarrow> model" where
  "plot A m = (if plotter_callback A then m\<lparr>trace := trace m @ [Plotted (iteration m)]\<rparr> else m)"

text \<open>
  One pass through the body of the \<open>while\<close> loop, from the local \<open>var\<close>; the result is the
  model with the new local \<open>var\<close> and \<open>stopping_criterion\<close>, or the exception raised.
\<close>

definition fit_round ::
  "env \<Rightarrow> config \<Rightarrow> fit_args \<Rightarrow> model \<Rightarrow> weights \<Rightarrow> model \<times> (error + weights \<times> bool)" where
  "fit_round E c A m v =
     (case draw_batch E c A m of ((x_train, y_train), m1) \<Rightarrow>
     (case step E c m1 x_train y_train v True of Inl e \<Rightarrow> (m1, Inl e)
      | Inr (r, m2) \<Rightarrow>
     (let m3 = m2\<lparr>trace := trace m2 @ [Stepped (iteration m2)]\<rparr> in
      case unpack_pair r of Inl e \<Rightarrow> (m3, Inl e)
      | Inr v1 \<Rightarrow>
     (case validate E c A m3 v1 of (m4, Inl e) \<Rightarrow> (m4, Inl e)
      | (m4, Inr stopping_criterion) \<Rightarrow>
     (case report E c A x_train y_train v1 of Some e \<Rightarrow> (m4, Inl e)
      | None \<Rightarrow>
     (case periodic_snapshot c m4 of Inl e \<Rightarrow> (m4, Inl e)
      | Inr m5 \<Rightarrow>
     (let m6 = plot A m5 in
      if stopping_criterion then
        (let best = es_get_best_var E (case early_stopper m6 of None \<Rightarrow> [] | Some calls \<Rightarrow> calls)
         in (m6\<lparr>var := best\<rparr>, Inr (best, True)))
      else (m6\<lparr>iteration := iteration m6 + 1, var := v1\<rparr>, Inr (v1, False)))))))))"

text \<open>No part of an iteration changes the counter before its last statement.\<close>

lemma snapshot_iteration: "snapshot c m b = Inr m' \<Longrightarrow> iteration m' = iteration m"
  by (auto simp add: snapshot_def Let_def split: sum.splits)

lemma periodic_snapshot_iteration: "periodic_snapshot c m = Inr m' \<Longrightarrow> iteration m' = iteration m"
  by (auto simp add: periodic_snapshot_def dest: snapshot_iteration split: if_splits)

lemma step_iteration: "step E c m x y v b = Inr (r, m') \<Longrightarrow> iteration m' = iteration m"
  by (auto simp add: step_def step_layerwise_def step_default_def step_tf_def Let_def
      split: if_splits sum.splits prod.splits weights.splits)

lemma validate_iteration: "validate E c A m v = (m', r) \<Longrightarrow> iteration m' = iteration m"
  by (auto simp add: validate_def Let_def split: option.splits sum.splits prod.splits if_splits)

lemma draw_batch_iteration: "draw_batch E c A m = (xy, m') \<Longrightarrow> iteration m' = iteration m"
  by (auto simp add: draw_batch_def split: if_splits)

lemma plot_iteration: "iteration (plot A m) = iteration m"
  by (simp add: plot_def)

lemma fit_round_iteration:
  assumes "fit_round E c A m v = (m', Inr (v', stop'))"
  shows "iteration m' = (if stop' then iteration m else iteration m + 1)"
proof -
  obtain x y m1 where d: "draw_batch E c A m = ((x, y), m1)"
    by (metis prod.exhaust)
  from assms d obtain r m2 where s: "step E c m1 x y v True = Inr (r, m2)"
    by (auto simp add: fit_round_def split: sum.splits)
  let ?m3 = "m2\<lparr>trace := trace m2 @ [Stepped (iteration m2)]\<rparr>"
  from assms d s obtain v1 where u: "unpack_pair r = Inr v1"
    by (auto simp add: fit_round_def Let_def split: sum.splits)
  from assms d s u obtain m4 sc where va: "validate E c A ?m3 v1 = (m4, Inr sc)"
    by (auto simp add: fit_round_def Let_def split: sum.splits prod.splits)
  from assms d s u va obtain m5 where ps: "periodic_snapshot c m4 = Inr m5"
    by (auto simp add: fit_round_def Let_def split: sum.splits prod.splits option.splits)
  have i: "iteration m5 = iteration m"
    using draw_batch_iteration [OF d] step_iteration [OF s] validate_iteration [OF va]
      periodic_snapshot_iteration [OF ps] by simp
  from assms d s u va ps i show ?thesis
    by (auto simp add: fit_round_def Let_def plot_iteration split: sum.splits prod.splits option.splits if_splits)
qed

text \<open>
  The \<open>while\<close> loop, from the local \<open>var\<close> and \<open>stopping_criterion\<close>. An exception leaves the
  loop with the model as it was when it was raised.
\<close>

function fit_loop ::
  "env \<Rightarrow> config \<Rightarrow> fit_args \<Rightarrow> model \<Rightarrow> weights \<Rightarrow> bool \<Rightarrow> model \<times> error option" where
  "fit_loop E c A m v stopping_criterion =
     (if \<not> stopping_criterion \<and> iteration m < max_iterations c then
        (case fit_round E c A m v of
           (m', Inl e) \<Rightarrow> (m', Some e)
         | (m', Inr (v', stopping_criterion')) \<Rightarrow> fit_loop E c A m' v' stopping_criterion')
      else (m, None))"
  by pat_completeness auto
termination
proof (relation "measure (\<lambda>(E, c, A, m, v, s). if s then 0 else Suc (nat (max_iterations c - iteration m)))")
  show "wf (measure (\<lambda>(E, c, A, m, v, s). if s then 0 else Suc (nat (max_iterations c - iteration m))))"
    by simp
next
  fix E c A m v stopping_criterion x1 x2 y x2a x1a
  assume "\<not> stopping_criterion \<and> iteration m < max_iterations c"
    and "(x1, x2) = fit_round E c A m v" and "x2 = Inr y" and "(x2a, x1a) = y"
  then have "fit_round E c A m v = (x1, Inr (x2a, x1a))" by simp
  from fit_round_iteration [OF this] \<open>\<not> stopping_criterion \<and> iteration m < max_iterations c\<close>
  show "((E, c, A, x1, x2a, x1a), E, c, A, m, v, stopping_criterion)
     \<in> measure (\<lambda>(E, c, A, m, v, s). if s then 0 else Suc (nat (max_iterations c - iteration m)))"
    by auto
qed

declare fit_loop.simps [simp del]

text \<open>
  \<open>to_categorical(train_labels, val_labels)\<close>; its second result is read only when
  validation labels were given.
\<close>

definition categorical :: "env \<Rightarrow> fit_args \<Rightarrow> fit_args" where
  "categorical E A =
     (case val A of
        None \<Rightarrow> A\<lparr>train_labels := fst (to_categorical E (train_labels A) None)\<rparr>
      | Some (val_features, val_labels) \<Rightarrow>
          (case to_categorical E (train_labels A) (Some val_labels) of
             (train_labels', val_labels') \<Rightarrow>
               A\<lparr>train_labels := train_labels', val := Some (val_features, val_labels')\<rparr>))"

text \<open>\<open>fit\<close> (lines 273 to 377); the result is the model and the exception raised, if any.\<close>

definition fit :: "env \<Rightarrow> config \<Rightarrow> fit_args \<Rightarrow> model \<Rightarrow> model \<times> error option" where
  "fit E c A m =
     (if \<not> built m then (m, Some (ValueError ''Build the model before fitting any data.''))
      else
        (let A' = (if type_problem c = ''multiclassification'' then categorical E A else A);
             m0 = m\<lparr>iteration := 0\<rparr>
         in case fit_loop E c A' m0 (var m0) False of
              (m1, Some e) \<Rightarrow> (m1, Some e)
            | (m1, None) \<Rightarrow>
                (case snapshot c m1 True of
                   Inl e \<Rightarrow> (m1, Some e)
                 | Inr m2 \<Rightarrow> (m2, None))))"

section \<open>A one-weight model for evaluation\<close>

text \<open>
  A concrete circuit, loss and optimizer on which the definitions are evaluated: the circuit
  returns its first weight, the loss is the mean of the squared differences, the gradient is
  the symmetric difference quotient (exact on a quadratic cost) and the optimizer is
  gradient descent with learning rate one half.
\<close>

definition first_weight :: "weights \<Rightarrow> real" where
  "first_weight v = (case flat (to_ndarray v) of [] \<Rightarrow> 0 | w # ws \<Rightarrow> w)"

definition mean_square :: "ndarray \<Rightarrow> ndarray \<Rightarrow> ndarray" where
  "mean_square labels predictions =
     Scalar (sum_list (map (\<lambda>(l, p). (l - p) * (l - p)) (zip (flat labels) (flat predictions)))
             / real (length (flat labels)))"

definition shifted :: "real \<Rightarrow> weights \<Rightarrow> weights" where
  "shifted h v = NpTensor True (Nd [Scalar (first_weight v + h)])"

definition difference_gradient :: "objective \<Rightarrow> weights list \<Rightarrow> error + ndarray" where
  "difference_gradient f args =
     (case args of
        [v] \<Rightarrow>
          (case f [shifted 1 v] of Inl e \<Rightarrow> Inl e
           | Inr a \<Rightarrow>
          (case f [shifted (- 1) v] of Inl e \<Rightarrow> Inl e
           | Inr b \<Rightarrow>
          (case asscalar a of Inl e \<Rightarrow> Inl e
           | Inr x \<Rightarrow>
          (case asscalar b of Inl e \<Rightarrow> Inl e
           | Inr y \<Rightarrow> Inr (Nd [Scalar ((x - y) / 2)])))))
      | _ \<Rightarrow> Inl (TypeError ''one argument''))"

definition descent_step :: "opt_state \<Rightarrow> objective \<Rightarrow> weights list \<Rightarrow> error + weights \<times> opt_state" where
  "descent_step st f args =
     (case args of
        [v] \<Rightarrow>
          (case difference_gradient f [v] of Inl e \<Rightarrow> Inl e
           | Inr g \<Rightarrow>
               Inr (NpTensor True (Nd [Scalar (first_weight v - (1 / 2) * first_weight (NpTensor True g))]), st))
      | _ \<Rightarrow> Inl (TypeError ''one argument''))"

definition one_weight_env :: env where
  "one_weight_env =
     \<lparr>neural_network = (\<lambda>v x. Scalar (first_weight v)),
      square_loss = mean_square,
      cross_entropy = mean_square,
      np_sum_axis1 = (\<lambda>a. a),
      np_divide = (\<lambda>a b. a),
      np_mean = (\<lambda>a. a),
      np_argmax_axis1 = (\<lambda>a. a),
      tf_losses_MSE = mean_square,
      tf_reduce_mean = (\<lambda>keepdims a. a),
      tf_softmax_cross_entropy_with_logits = mean_square,
      tf_nn_softmax = (\<lambda>a. a),
      optimizer_step = descent_step,
      get_gradient = difference_gradient,
      tape_gradient = (\<lambda>f vs. map to_ndarray vs),
      apply_gradients = (\<lambda>st gvs. (map snd gvs, st)),
      get_random_batch = (\<lambda>n xs ys k. (xs, ys)),
      to_categorical = (\<lambda>ys vs. (ys, case vs of None \<Rightarrow> ys | Some zs \<Rightarrow> zs)),
      es_update = (\<lambda>calls. True),
      es_get_best_var = (\<lambda>calls. case calls of [] \<Rightarrow> PyList [] | (l, v) # cs \<Rightarrow> v)\<rparr>"

definition regression_config :: config where
  "regression_config =
     \<lparr>prefix = ''qnn'', interface = ''autograd'', architecture = ''qubit'',
      type_problem = ''regression'', training_type = ''default'',
      layerwise_learning_period = None, num_layers = 1, max_iterations = 10,
      batch_size = 1, snapshot_frequency = 0, early_stopper_patience = 0\<rparr>"

definition fresh_model :: "weights \<Rightarrow> model" where
  "fresh_model v =
     \<lparr>built = True, iteration = 0, var = v, optimizer = [], early_stopper = Some [],
      files = Map.empty, rng = 0, trace = []\<rparr>"

definition half :: weights where
  "half = NpTensor True (Nd [Scalar (1 / 2)])"












definition two_layers :: weights where
  "two_layers = NpTensor True (Nd [Nd [Scalar 1, Scalar 2], Nd [Scalar 3, Scalar 4]])"



section \<open>Parameter states that fit the interface\<close>

fun is_np_array :: "weights \<Rightarrow> bool" where
  "is_np_array (NpTensor b a) = True"
| "is_np_array (NpArray a) = True"
| "is_np_array v = False"

fun is_tf_variable :: "weights \<Rightarrow> bool" where
  "is_tf_variable (TfVariable a) = True"
| "is_tf_variable v = False"

text \<open>
  The parameter states of a built model: with autograd one array (pennylane tensor or plain
  numpy array) of at least one dimension or a list of arrays, with tensorflow one variable of at least one dimension, or a list of
  variables in the \<open>cv\<close> architecture.
\<close>

definition representable :: "config \<Rightarrow> weights \<Rightarrow> bool" where
  "representable c p =
     (if interface c = ''autograd'' then
        (case p of NpTensor b (Nd xs) \<Rightarrow> True | NpArray (Nd xs) \<Rightarrow> True
         | PyList vs \<Rightarrow> list_all is_np_array vs | _ \<Rightarrow> False)
      else if interface c = ''tf'' then
        if architecture c = ''cv'' then
          (case p of PyList vs \<Rightarrow> list_all is_tf_variable vs | _ \<Rightarrow> False)
        else (case p of TfVariable (Nd xs) \<Rightarrow> True | _ \<Rightarrow> False)
      else False)"

section \<open>Events of a training run\<close>

text \<open>
  The kinds of events in a trace: a gradient step, a stop signalled by the early stopper, a
  periodic snapshot and a best snapshot.
\<close>

fun is_step :: "event \<Rightarrow> bool" where
  "is_step (Stepped i) = True"
| "is_step e = False"

fun is_stop :: "event \<Rightarrow> bool" where
  "is_stop (Updated i b) = b"
| "is_stop e = False"

fun is_periodic_snapshot :: "event \<Rightarrow> bool" where
  "is_periodic_snapshot (Snapshotted is_best f) = (\<not> is_best)"
| "is_periodic_snapshot e = False"

fun is_best_snapshot :: "event \<Rightarrow> bool" where
  "is_best_snapshot (Snapshotted is_best f) = is_best"
| "is_best_snapshot e = False"

text \<open>After the first stop signal of a trace no gradient step follows.\<close>

fun halts_after_stop :: "event list \<Rightarrow> bool" where
  "halts_after_stop [] = True"
| "halts_after_stop (e # evs) = (if is_stop e then \<not> list_ex is_step evs else halts_after_stop evs)"

text \<open>\<open>self.early_stopper.get_best_var()\<close> on the stopper of the model.\<close>

definition best_var :: "env \<Rightarrow> model \<Rightarrow> weights" where
  "best_var E m = es_get_best_var E (case early_stopper m of None \<Rightarrow> [] | Some calls \<Rightarrow> calls)"

text \<open>Two calls of \<open>fit\<close> on the one-weight model: without and with validation data.\<close>

definition quiet_args :: fit_args where
  "quiet_args = \<lparr>train_features = [Scalar 0], train_labels = Nd [Scalar 0],
     plotter_callback = False, val = None, verbose = True\<rparr>"

definition validated_args :: fit_args where
  "validated_args = \<lparr>train_features = [Scalar 0], train_labels = Nd [Scalar 0],
     plotter_callback = True, val = Some ([Scalar 0], Nd [Scalar 0]), verbose = False\<rparr>"

text \<open>The name of the best snapshot.\<close>

definition best_file :: "config \<Rightarrow> string" where
  "best_file c = prefix c @ ''_best_weights.npz''"

section \<open>Facts about the one-weight model\<close>

lemmas demo_defs = one_weight_env_def regression_config_def half_def first_weight_def
  mean_square_def descent_step_def difference_gradient_def shifted_def fresh_model_def

text \<open>
  On the cost of the one-weight model with label 0, which is the square of the weight, the
  difference gradient is the derivative.
\<close>

lemma one_weight_cost:
  "objective_cost one_weight_env regression_config [Scalar 0] (Nd [Scalar 0])
     [NpTensor True (Nd [Scalar w])] = Inr (Scalar (w * w))"
  by (simp add: objective_cost_def cost_def demo_defs)

lemma one_weight_gradient:
  "get_gradient one_weight_env
     (objective_cost one_weight_env regression_config [Scalar 0] (Nd [Scalar 0]))
     [NpTensor True (Nd [Scalar w])] = Inr (Nd [Scalar (2 * w)])"
  by (simp add: objective_cost_def cost_def demo_defs algebra_simps)

lemma one_weight_derivative: "((\<lambda>w. w * w) has_field_derivative 2 * w) (at (w::real))"
  by (auto intro!: derivative_eq_intros)

section \<open>Facts about rounding\<close>





















section \<open>Properties of snapshots\<close>

lemma map_snd_savez: "map snd (savez arrays) = arrays"
proof -
  have "snd \<circ> (\<lambda>(i, a). (''arr_'' @ str_nat i, a)) = (snd :: nat \<times> ndarray \<Rightarrow> ndarray)"
    by (simp add: fun_eq_iff)
  then have "map snd (savez arrays) = map snd (List.enumerate 0 arrays)"
    by (simp add: savez_def)
  then show ?thesis by simp
qed

lemma collect_numpy:
  "list_all is_tf_variable vs \<Longrightarrow> collect (map numpy vs) = Inr (map to_ndarray vs)"
proof (induction vs)
  case Nil
  then show ?case by simp
next
  case (Cons v vs)
  then show ?case by (cases v) simp_all
qed

lemma to_ndarray_tf: "to_ndarray \<circ> TfVariable = id"
  by (simp add: fun_eq_iff)

lemma to_ndarray_np: "to_ndarray \<circ> NpTensor b = id"
  by (simp add: fun_eq_iff)

lemma to_ndarray_plain: "to_ndarray \<circ> NpArray = id"
  by (simp add: fun_eq_iff)

text \<open>The arrays saved from a parameter state that fits the interface are its layers.\<close>

lemma tosave_representable:
  assumes "representable c (var m)"
  shows "\<exists>arrays. tosave c m = Inr arrays \<and> Nd arrays = to_ndarray (var m)"
proof (cases "interface c = ''autograd''")
  case True
  with assms obtain vs where "iter_weights (var m) = Inr vs"
    "Nd (map to_ndarray vs) = to_ndarray (var m)"
    by (cases "var m")
      (auto simp add: representable_def to_ndarray_np to_ndarray_plain split: ndarray.splits)
  with True show ?thesis by (simp add: tosave_def)
next
  case False
  with assms have tf: "interface c = ''tf''"
    by (simp add: representable_def split: if_splits)
  show ?thesis
  proof (cases "architecture c = ''cv''")
    case True
    with tf assms obtain vs where "var m = PyList vs" "list_all is_tf_variable vs"
      by (cases "var m") (auto simp add: representable_def)
    with tf True show ?thesis by (simp add: tosave_def collect_numpy)
  next
    case False
    with tf assms obtain xs where "var m = TfVariable (Nd xs)"
      by (cases "var m") (auto simp add: representable_def split: ndarray.splits)
    with tf False show ?thesis by (simp add: tosave_def)
  qed
qed

text \<open>Loading an archive written by \<open>np.savez\<close> gives its arrays, whatever \<open>var\<close> was before.\<close>

lemma load_weights_savez:
  assumes "files m' weights_file = Some (savez arrays)"
  shows "\<exists>m2. load_weights c m' weights_file = Inr m2 \<and> to_ndarray (var m2) = Nd arrays"
  using assms
  by (simp add: load_weights_def Let_def map_snd_savez to_ndarray_tf to_ndarray_plain)

text \<open>
  Claim C2. For every parameter state that fits the interface (a single array of at least
  one dimension, or a sequence of per-layer arrays), \<open>snapshot\<close> succeeds, and \<open>load_weights\<close>
  of the file it wrote, into any model that sees the same files, whatever parameters that
  model held, succeeds and leaves a \<open>var\<close> with the same elements as the saved one. With
  autograd a single array comes back as the list of its layers.
\<close>

theorem snapshot_load_roundtrip:
  assumes "representable c (var m)"
  shows "\<exists>m1. snapshot c m is_best = Inr m1
           \<and> (\<forall>m'. files m' = files m1 \<longrightarrow>
                (\<exists>m2. load_weights c m' (snapshot_file c m is_best) = Inr m2
                   \<and> to_ndarray (var m2) = to_ndarray (var m)))"
proof -
  from tosave_representable [OF assms] obtain arrays where
    t: "tosave c m = Inr arrays" and a: "Nd arrays = to_ndarray (var m)"
    by blast
  define m1 where "m1 = m\<lparr>files := (files m)(snapshot_file c m is_best \<mapsto> savez arrays),
      trace := trace m @ [Snapshotted is_best (snapshot_file c m is_best)]\<rparr>"
  from t have s: "snapshot c m is_best = Inr m1"
    by (simp add: snapshot_def Let_def m1_def)
  have "\<exists>m2. load_weights c m' (snapshot_file c m is_best) = Inr m2
      \<and> to_ndarray (var m2) = to_ndarray (var m)" if "files m' = files m1" for m'
  proof -
    from that have "files m' (snapshot_file c m is_best) = Some (savez arrays)"
      by (simp add: m1_def)
    from load_weights_savez [OF this] a show ?thesis by simp
  qed
  with s show ?thesis by blast
qed

theorem snapshot_load_roundtrip_witness:
  "representable regression_config (var (fresh_model two_layers)) \<and>
   var (fresh_model half) = NpTensor True (Nd [Scalar (1 / 2)]) \<and>
   (\<exists>m1 m2. snapshot regression_config (fresh_model two_layers) True = Inr m1
      \<and> load_weights regression_config ((fresh_model half)\<lparr>files := files m1\<rparr>)
           (snapshot_file regression_config (fresh_model two_layers) True) = Inr m2
      \<and> to_ndarray (var m2) = Nd [Nd [Scalar 1, Scalar 2], Nd [Scalar 3, Scalar 4]])"
proof -
  have h: "representable regression_config (var (fresh_model two_layers))"
    by (simp add: representable_def regression_config_def fresh_model_def two_layers_def)
  from snapshot_load_roundtrip [OF h, of True] obtain m1 where
    s: "snapshot regression_config (fresh_model two_layers) True = Inr m1"
    and l: "\<forall>m'. files m' = files m1 \<longrightarrow>
        (\<exists>m2. load_weights regression_config m'
                 (snapshot_file regression_config (fresh_model two_layers) True) = Inr m2
           \<and> to_ndarray (var m2) = to_ndarray (var (fresh_model two_layers)))"
    by blast
  have "files ((fresh_model half)\<lparr>files := files m1\<rparr>) = files m1" by simp
  with l obtain m2 where
    "load_weights regression_config ((fresh_model half)\<lparr>files := files m1\<rparr>)
        (snapshot_file regression_config (fresh_model two_layers) True) = Inr m2"
    and "to_ndarray (var m2) = to_ndarray (var (fresh_model two_layers))"
    by blast
  with s h show ?thesis
    by (auto simp add: fresh_model_def two_layers_def half_def)
qed

section \<open>Properties of the cost and of prediction\<close>

text \<open>
  Claim C3. The claim asks for a configuration error when no branch of \<open>cost\<close> matches the
  problem type. With autograd and \<open>descriptor_computation\<close> the code leaves \<open>loss\<close> unassigned
  and \<open>return loss\<close> raises \<open>UnboundLocalError\<close>.
\<close>

theorem cost_without_branch_unbound:
  "cost E (c\<lparr>interface := ''autograd'', type_problem := ''descriptor_computation''\<rparr>)
     features labels v = Inl (UnboundLocalError ''loss'')"
  by (simp add: cost_def)

text \<open>
  Claim C8. When the problem type is regression or reinforcement learning,
  \<open>predict_proba\<close> raises the error the code uses for a wrong configuration (\<open>ValueError\<close>)
  and returns no probabilities.
\<close>

theorem predict_proba_raises:
  "type_problem c \<in> {''regression'', ''reinforcement_learning''} \<Longrightarrow>
   predict_proba E c m features = Inl (ValueError
     ''Cannot predict probabilities when type_problem is set to: regression or reinforcement_learning'')"
  by (auto simp add: predict_proba_def)

theorem predict_proba_raises_witness:
  "type_problem regression_config \<in> {''regression'', ''reinforcement_learning''} \<and>
   predict_proba one_weight_env regression_config (fresh_model half) [Scalar 3] = Inl (ValueError
     ''Cannot predict probabilities when type_problem is set to: regression or reinforcement_learning'')"
proof -
  have h: "type_problem regression_config \<in> {''regression'', ''reinforcement_learning''}"
    by (simp add: regression_config_def)
  from predict_proba_raises [OF h] h show ?thesis by simp
qed

text \<open>
  Claim C9. When the problem type is neither classification nor multiclassification,
  \<open>predict\<close> returns the array of the circuit's outputs, one per sample, unchanged.
\<close>

theorem predict_raw_outputs:
  "type_problem c \<noteq> ''classification'' \<Longrightarrow> type_problem c \<noteq> ''multiclassification'' \<Longrightarrow>
   predict E c m features = Nd (map (neural_network E (var m)) features)"
  by (simp add: predict_def)

theorem predict_raw_outputs_witness:
  "type_problem regression_config \<noteq> ''classification'' \<and>
   type_problem regression_config \<noteq> ''multiclassification'' \<and>
   predict one_weight_env regression_config (fresh_model half) [Scalar 3, Scalar 4]
     = Nd [Scalar (1 / 2), Scalar (1 / 2)]"
  using predict_raw_outputs [of regression_config one_weight_env "fresh_model half"
      "[Scalar 3, Scalar 4]"]
  by (simp add: demo_defs)




section \<open>Properties of a training step\<close>

text \<open>
  Claim C1. The claim takes the period of the layer-wise schedule from the configured
  \<open>layerwise_learning_period\<close>. The code divides the iteration by the constant 20: with three
  layers and a configured period of 5 the index is 0 at every iteration from 0 to 14, where
  the claim gives 0 five times, then 1 five times, then 2 five times.
\<close>

theorem layer_index_ignores_period:
  "map (\<lambda>k. layer_index (c\<lparr>num_layers := 3, layerwise_learning_period := Some 5\<rparr>)
              (m\<lparr>iteration := k\<rparr>))
     [0, 1, 2, 3, 4, 5, 6, 7, 8, 9, 10, 11, 12, 13, 14]
   = [Inr 0, Inr 0, Inr 0, Inr 0, Inr 0, Inr 0, Inr 0, Inr 0, Inr 0, Inr 0,
      Inr 0, Inr 0, Inr 0, Inr 0, Inr 0]"
  by (simp add: layer_index_def)







text \<open>
  Claim C5. The claim has \<open>step\<close> return a pair of parameters and gradient norm for every
  backend. With the tensorflow interface the code returns \<open>var\<close> alone, also when the norm is
  requested: no result of \<open>step\<close> is a pair there.
\<close>

theorem step_tf_returns_var_alone:
  "step E (c\<lparr>interface := ''tf''\<rparr>) m features labels v True \<noteq> Inr (RetPair v' g, m')"
  by (simp add: step_def step_tf_def Let_def split: sum.splits weights.splits prod.splits)

section \<open>Properties of the training loop\<close>

lemma step_frame:
  assumes "step E c m x y v b = Inr (r, m')"
  shows "trace m' = trace m" and "iteration m' = iteration m" and "early_stopper m' = early_stopper m"
    and "var m' = var m"
  using assms
  by (auto simp add: step_def step_layerwise_def step_default_def step_tf_def Let_def
      split: if_splits sum.splits prod.splits weights.splits)

lemma draw_batch_frame:
  assumes "draw_batch E c A m = (xy, m')"
  shows "trace m' = trace m" and "iteration m' = iteration m" and "early_stopper m' = early_stopper m"
    and "var m' = var m"
  using assms by (auto simp add: draw_batch_def split: if_splits)

lemma validate_cases:
  assumes "validate E c A m v = (m', r)"
  shows "(m' = m \<and> r \<noteq> Inr True)
       \<or> (\<exists>calls stop. val A \<noteq> None \<and> 2 * early_stopper_patience c < iteration m
             \<and> r = Inr stop
             \<and> m' = m\<lparr>early_stopper := Some calls, trace := trace m @ [Updated (iteration m) stop]\<rparr>)"
  using assms
  by (auto simp add: validate_def Let_def split: option.splits sum.splits prod.splits if_splits)

lemma periodic_snapshot_cases:
  assumes "periodic_snapshot c m = Inr m'"
  shows "m' = m \<or> (0 < snapshot_frequency c \<and>
      (\<exists>fs. m' = m\<lparr>files := fs, trace := trace m @ [Snapshotted False (snapshot_file c m False)]\<rparr>))"
  using assms
  by (auto simp add: periodic_snapshot_def snapshot_def Let_def split: if_splits sum.splits)

lemma plot_cases: "plot A m = m \<or> plot A m = m\<lparr>trace := trace m @ [Plotted (iteration m)]\<rparr>"
  by (simp add: plot_def)


text \<open>An iteration that ran to its end, statement by statement.\<close>

lemma fit_round_returns:
  assumes "fit_round E c A m v = (m', Inr (v', stop))"
  obtains x y m1 r m2 v1 m4 m5 where
    "draw_batch E c A m = ((x, y), m1)"
    "step E c m1 x y v True = Inr (r, m2)"
    "unpack_pair r = Inr v1"
    "validate E c A (m2\<lparr>trace := trace m2 @ [Stepped (iteration m2)]\<rparr>) v1 = (m4, Inr stop)"
    "periodic_snapshot c m4 = Inr m5"
    "m' = (if stop then (plot A m5)\<lparr>var := best_var E (plot A m5)\<rparr>
           else (plot A m5)\<lparr>iteration := iteration (plot A m5) + 1, var := v1\<rparr>)"
    "v' = (if stop then best_var E (plot A m5) else v1)"
proof -
  obtain x y m1 where d: "draw_batch E c A m = ((x, y), m1)"
    by (metis prod.exhaust)
  from assms d obtain r m2 where s: "step E c m1 x y v True = Inr (r, m2)"
    by (auto simp add: fit_round_def split: sum.splits)
  from assms d s obtain v1 where u: "unpack_pair r = Inr v1"
    by (auto simp add: fit_round_def Let_def split: sum.splits)
  from assms d s u obtain m4 sc where
    va: "validate E c A (m2\<lparr>trace := trace m2 @ [Stepped (iteration m2)]\<rparr>) v1 = (m4, Inr sc)"
    by (auto simp add: fit_round_def Let_def split: sum.splits prod.splits)
  from assms d s u va obtain m5 where ps: "periodic_snapshot c m4 = Inr m5"
    by (auto simp add: fit_round_def Let_def split: sum.splits prod.splits option.splits)
  from assms d s u va ps have
    "m' = (if sc then (plot A m5)\<lparr>var := best_var E (plot A m5)\<rparr>
           else (plot A m5)\<lparr>iteration := iteration (plot A m5) + 1, var := v1\<rparr>)"
    "stop = sc" "v' = (if sc then best_var E (plot A m5) else v1)"
    by (auto simp add: fit_round_def Let_def best_var_def
        split: sum.splits prod.splits option.splits if_splits)
  with d s u va ps that show ?thesis by blast
qed

text \<open>The events of an iteration that ran to its end.\<close>

lemma fit_round_events:
  assumes "fit_round E c A m v = (m', Inr (v', stop))"
  shows "\<exists>upd snap plt.
      trace m' = trace m @ Stepped (iteration m) # upd @ snap @ plt
    \<and> (upd = [] \<and> \<not> stop
        \<or> upd = [Updated (iteration m) stop] \<and> val A \<noteq> None \<and> 2 * early_stopper_patience c < iteration m)
    \<and> (snap = [] \<or> snap = [Snapshotted False (snapshot_file c m False)] \<and> 0 < snapshot_frequency c)
    \<and> (plt = [] \<or> plt = [Plotted (iteration m)])
    \<and> (stop \<longrightarrow> var m' = best_var E m' \<and> v' = var m')"
proof -
  from assms obtain x y m1 r m2 v1 m4 m5 where
    d: "draw_batch E c A m = ((x, y), m1)"
    and s: "step E c m1 x y v True = Inr (r, m2)"
    and va: "validate E c A (m2\<lparr>trace := trace m2 @ [Stepped (iteration m2)]\<rparr>) v1 = (m4, Inr stop)"
    and ps: "periodic_snapshot c m4 = Inr m5"
    and res: "m' = (if stop then (plot A m5)\<lparr>var := best_var E (plot A m5)\<rparr>
           else (plot A m5)\<lparr>iteration := iteration (plot A m5) + 1, var := v1\<rparr>)"
    and v': "v' = (if stop then best_var E (plot A m5) else v1)"
    by (rule fit_round_returns)
  define m3 where "m3 = m2\<lparr>trace := trace m2 @ [Stepped (iteration m2)]\<rparr>"
  have t3: "trace m3 = trace m @ [Stepped (iteration m)]" and i3: "iteration m3 = iteration m"
    using draw_batch_frame(1,2) [OF d] step_frame(1,2) [OF s] by (simp_all add: m3_def)
  from va have va3: "validate E c A m3 v1 = (m4, Inr stop)" by (simp add: m3_def)
  from validate_cases [OF va3] t3 i3
  obtain upd where t4: "trace m4 = trace m @ Stepped (iteration m) # upd" and i4: "iteration m4 = iteration m"
    and upd: "upd = [] \<and> \<not> stop
        \<or> upd = [Updated (iteration m) stop] \<and> val A \<noteq> None \<and> 2 * early_stopper_patience c < iteration m"
    by auto
  have f4: "snapshot_file c m4 False = snapshot_file c m False"
    using i4 by (simp add: snapshot_file_def)
  from periodic_snapshot_cases [OF ps] t4 i4 f4
  obtain snap where t5: "trace m5 = trace m @ Stepped (iteration m) # upd @ snap" and i5: "iteration m5 = iteration m"
    and snap: "snap = [] \<or> snap = [Snapshotted False (snapshot_file c m False)] \<and> 0 < snapshot_frequency c"
    by auto
  from plot_cases [of A m5] t5 i5
  obtain plt where t6: "trace (plot A m5) = trace m @ Stepped (iteration m) # upd @ snap @ plt"
    and plt: "plt = [] \<or> plt = [Plotted (iteration m)]"
    by auto
  have "trace m' = trace (plot A m5)" using res by simp
  moreover have "stop \<longrightarrow> var m' = best_var E m' \<and> v' = var m'"
    using res v' by (simp add: best_var_def)
  ultimately show ?thesis using t6 upd snap plt
    by - (rule exI [of _ upd], rule exI [of _ snap], rule exI [of _ plt], simp)
qed


text \<open>The events of an iteration that raised.\<close>

lemma fit_round_events_raised:
  assumes "fit_round E c A m v = (m', Inl e)"
  shows "\<exists>evs. trace m' = trace m @ evs
    \<and> (evs = [] \<or> evs = [Stepped (iteration m)]
        \<or> (\<exists>b. evs = [Stepped (iteration m), Updated (iteration m) b]
              \<and> val A \<noteq> None \<and> 2 * early_stopper_patience c < iteration m))"
proof -
  obtain x y m1 where d: "draw_batch E c A m = ((x, y), m1)"
    by (metis prod.exhaust)
  note m1 = draw_batch_frame(1,2) [OF d]
  show ?thesis
  proof (cases "step E c m1 x y v True")
    case (Inl e1)
    with assms d have "m' = m1" by (simp add: fit_round_def)
    with m1 show ?thesis by simp
  next
    case (Inr p)
    then obtain r m2 where s: "step E c m1 x y v True = Inr (r, m2)"
      by (cases p) simp
    define m3 where "m3 = m2\<lparr>trace := trace m2 @ [Stepped (iteration m2)]\<rparr>"
    have t3: "trace m3 = trace m @ [Stepped (iteration m)]" and i3: "iteration m3 = iteration m"
      using m1 step_frame(1,2) [OF s] by (simp_all add: m3_def)
    show ?thesis
    proof (cases "unpack_pair r")
      case (Inl e2)
      with assms d s have "m' = m3" by (simp add: fit_round_def m3_def)
      with t3 show ?thesis by simp
    next
      case u: (Inr v1)
      obtain m4 rv where va: "validate E c A m3 v1 = (m4, rv)"
        by (metis prod.exhaust)
      from assms d s u va [unfolded m3_def] have "m' = m4"
        by (simp add: fit_round_def Let_def split: sum.splits option.splits if_splits)
      moreover from validate_cases [OF va] t3 i3
      have "trace m4 = trace m @ [Stepped (iteration m)]
        \<or> (\<exists>b. trace m4 = trace m @ [Stepped (iteration m), Updated (iteration m) b]
              \<and> val A \<noteq> None \<and> 2 * early_stopper_patience c < iteration m)"
        by auto
      ultimately show ?thesis by auto
    qed
  qed
qed


text \<open>Induction over the iterations of the loop.\<close>

lemma fit_loop_induct [consumes 1, case_names finished raised continue]:
  assumes run: "fit_loop E c A m v s = (m', err)"
    and finished: "\<And>m v s. s \<or> \<not> iteration m < max_iterations c \<Longrightarrow> P m v s m None"
    and raised: "\<And>m v s m1 e. \<not> s \<Longrightarrow> iteration m < max_iterations c
           \<Longrightarrow> fit_round E c A m v = (m1, Inl e) \<Longrightarrow> P m v s m1 (Some e)"
    and continue: "\<And>m v s m1 v1 s1 m' err. \<not> s \<Longrightarrow> iteration m < max_iterations c
           \<Longrightarrow> fit_round E c A m v = (m1, Inr (v1, s1))
           \<Longrightarrow> fit_loop E c A m1 v1 s1 = (m', err) \<Longrightarrow> P m1 v1 s1 m' err \<Longrightarrow> P m v s m' err"
  shows "P m v s m' err"
  using assms
proof (induction E c A m v s arbitrary: m' err rule: fit_loop.induct)
  case (1 E c A m v s)
  show ?case
  proof (cases "\<not> s \<and> iteration m < max_iterations c")
    case False
    then have "fit_loop E c A m v s = (m, None)"
      by (subst fit_loop.simps) auto
    with "1.prems"(1) have "m' = m" "err = None"
      by simp_all
    moreover from False have "P m v s m None"
      by (intro "1.prems"(2)) simp
    ultimately show ?thesis by simp
  next
    case True
    then have unfold: "fit_loop E c A m v s =
        (case fit_round E c A m v of
           (m', Inl e) \<Rightarrow> (m', Some e)
         | (m', Inr (v', s')) \<Rightarrow> fit_loop E c A m' v' s')"
      by (subst fit_loop.simps) auto
    obtain m1 r where fr: "fit_round E c A m v = (m1, r)"
      by (metis prod.exhaust)
    show ?thesis
    proof (cases r)
      case (Inl e)
      with fr "1.prems"(1) have "m' = m1" "err = Some e"
        by (simp_all add: unfold)
      moreover from True fr Inl have "P m v s m1 (Some e)"
        by (intro "1.prems"(3)) simp_all
      ultimately show ?thesis by simp
    next
      case (Inr p)
      obtain v1 s1 where p: "p = (v1, s1)" by (cases p)
      with fr Inr "1.prems"(1) have rec: "fit_loop E c A m1 v1 s1 = (m', err)"
        by (simp add: unfold)
      have "P m1 v1 s1 m' err"
        by (rule "1.IH" [OF True fr [symmetric] Inr p [symmetric] rec "1.prems"(2,3,4)])
      moreover from fr Inr p have "fit_round E c A m v = (m1, Inr (v1, s1))" by simp
      ultimately show ?thesis
        using True rec by (intro "1.prems"(4) [of s m v m1 v1 s1 m' err]) simp_all
    qed
  qed
qed


lemma fit_loop_stopped: "fit_loop E c A m v True = (m, None)"
  by (subst fit_loop.simps) simp

lemma halts_after_stop_append:
  "\<not> list_ex is_stop xs \<Longrightarrow> halts_after_stop (xs @ ys) = halts_after_stop ys"
  by (induction xs) simp_all

lemma halts_after_stop_snoc:
  "halts_after_stop xs \<Longrightarrow> \<not> is_step e \<Longrightarrow> halts_after_stop (xs @ [e])"
  by (induction xs) (auto simp add: list_ex_iff split: if_splits)

lemma stop_event: "is_stop e = (\<exists>i. e = Updated i True)"
  by (cases e) auto

text \<open>What the loops below need of an iteration that ran to its end.\<close>

lemma fit_round_summary:
  assumes "fit_round E c A m v = (m1, Inr (v1, s1))"
  shows "\<exists>evs. trace m1 = trace m @ evs
     \<and> (\<forall>e\<in>set evs. \<not> is_best_snapshot e
           \<and> (snapshot_frequency c \<le> 0 \<longrightarrow> \<not> is_periodic_snapshot e)
           \<and> (\<forall>i b. e = Updated i b \<longrightarrow>
                 i = iteration m \<and> 2 * early_stopper_patience c < i \<and> val A \<noteq> None))
     \<and> length (filter is_step evs) = 1
     \<and> list_ex is_stop evs = s1
     \<and> halts_after_stop evs
     \<and> (val A = None \<longrightarrow> \<not> s1)
     \<and> (s1 \<longrightarrow> var m1 = best_var E m1)"
proof -
  from fit_round_events [OF assms] obtain upd snap plt where
    t: "trace m1 = trace m @ Stepped (iteration m) # upd @ snap @ plt"
    and upd: "upd = [] \<and> \<not> s1
        \<or> upd = [Updated (iteration m) s1] \<and> val A \<noteq> None \<and> 2 * early_stopper_patience c < iteration m"
    and snap: "snap = [] \<or> snap = [Snapshotted False (snapshot_file c m False)] \<and> 0 < snapshot_frequency c"
    and plt: "plt = [] \<or> plt = [Plotted (iteration m)]"
    and best: "s1 \<longrightarrow> var m1 = best_var E m1 \<and> v1 = var m1"
    by blast
  let ?evs = "Stepped (iteration m) # upd @ snap @ plt"
  have 1: "\<forall>e\<in>set ?evs. \<not> is_best_snapshot e
           \<and> (snapshot_frequency c \<le> 0 \<longrightarrow> \<not> is_periodic_snapshot e)
           \<and> (\<forall>i b. e = Updated i b \<longrightarrow>
                 i = iteration m \<and> 2 * early_stopper_patience c < i \<and> val A \<noteq> None)"
    using upd snap plt by auto
  have 2: "length (filter is_step ?evs) = 1"
    using upd snap plt by auto
  have 3: "list_ex is_stop ?evs = s1"
    using upd snap plt by auto
  have 4: "halts_after_stop ?evs"
    using upd snap plt by auto
  have 5: "val A = None \<longrightarrow> \<not> s1"
    using upd by auto
  from t 1 2 3 4 5 best show ?thesis
    by - (rule exI [of _ ?evs], simp)
qed


lemma fit_round_raised_summary:
  assumes "fit_round E c A m v = (m1, Inl e)"
  shows "\<exists>evs. trace m1 = trace m @ evs
     \<and> (\<forall>e\<in>set evs. \<not> is_best_snapshot e \<and> \<not> is_periodic_snapshot e
           \<and> (\<forall>i b. e = Updated i b \<longrightarrow>
                 i = iteration m \<and> 2 * early_stopper_patience c < i \<and> val A \<noteq> None))
     \<and> halts_after_stop evs"
proof -
  from fit_round_events_raised [OF assms] obtain evs where
    t: "trace m1 = trace m @ evs"
    and evs: "evs = [] \<or> evs = [Stepped (iteration m)]
        \<or> (\<exists>b. evs = [Stepped (iteration m), Updated (iteration m) b]
              \<and> val A \<noteq> None \<and> 2 * early_stopper_patience c < iteration m)"
    by blast
  from evs have "(\<forall>e\<in>set evs. \<not> is_best_snapshot e \<and> \<not> is_periodic_snapshot e
           \<and> (\<forall>i b. e = Updated i b \<longrightarrow>
                 i = iteration m \<and> 2 * early_stopper_patience c < i \<and> val A \<noteq> None))
     \<and> halts_after_stop evs"
    by auto
  with t show ?thesis by blast
qed

text \<open>
  Every event of the loop is a step, an update of the early stopper past twice the patience
  and with validation data, a periodic snapshot (only with a positive frequency) or a plot.
\<close>

lemma fit_loop_events:
  assumes "fit_loop E c A m v s = (m', err)"
  shows "\<exists>evs. trace m' = trace m @ evs
     \<and> (\<forall>e\<in>set evs. \<not> is_best_snapshot e
           \<and> (snapshot_frequency c \<le> 0 \<longrightarrow> \<not> is_periodic_snapshot e)
           \<and> (\<forall>i b. e = Updated i b \<longrightarrow> 2 * early_stopper_patience c < i \<and> val A \<noteq> None))"
  using assms
proof (induction rule: fit_loop_induct)
  case (finished m v s)
  show ?case by simp
next
  case (raised m v s m1 e)
  from fit_round_raised_summary [OF raised(3)] show ?case by fastforce
next
  case (continue m v s m1 v1 s1 m' err)
  from fit_round_summary [OF continue(3)] obtain evs1 where
    1: "trace m1 = trace m @ evs1"
    and 2: "\<forall>e\<in>set evs1. \<not> is_best_snapshot e
           \<and> (snapshot_frequency c \<le> 0 \<longrightarrow> \<not> is_periodic_snapshot e)
           \<and> (\<forall>i b. e = Updated i b \<longrightarrow>
                 i = iteration m \<and> 2 * early_stopper_patience c < i \<and> val A \<noteq> None)"
    by blast
  from continue(5) obtain evs2 where
    3: "trace m' = trace m1 @ evs2"
    and 4: "\<forall>e\<in>set evs2. \<not> is_best_snapshot e
           \<and> (snapshot_frequency c \<le> 0 \<longrightarrow> \<not> is_periodic_snapshot e)
           \<and> (\<forall>i b. e = Updated i b \<longrightarrow> 2 * early_stopper_patience c < i \<and> val A \<noteq> None)"
    by blast
  from 1 3 have "trace m' = trace m @ (evs1 @ evs2)" by simp
  moreover from 2 4 have "\<forall>e\<in>set (evs1 @ evs2). \<not> is_best_snapshot e
           \<and> (snapshot_frequency c \<le> 0 \<longrightarrow> \<not> is_periodic_snapshot e)
           \<and> (\<forall>i b. e = Updated i b \<longrightarrow> 2 * early_stopper_patience c < i \<and> val A \<noteq> None)"
    by auto
  ultimately show ?case by blast
qed

text \<open>
  After a stop signal no further step is taken, and a loop that ends without an exception
  ends with the best parameters and the counter of the iteration that signalled the stop.
\<close>

lemma fit_loop_stop:
  assumes "fit_loop E c A m v s = (m', err)"
  shows "\<exists>evs. trace m' = trace m @ evs \<and> halts_after_stop evs
     \<and> (err = None \<longrightarrow> (\<forall>i. Updated i True \<in> set evs \<longrightarrow>
            var m' = best_var E m' \<and> iteration m' = i))"
  using assms
proof (induction rule: fit_loop_induct)
  case (finished m v s)
  show ?case by simp
next
  case (raised m v s m1 e)
  from fit_round_raised_summary [OF raised(3)] show ?case by fastforce
next
  case (continue m v s m1 v1 s1 m' err)
  from fit_round_summary [OF continue(3)] obtain evs1 where
    1: "trace m1 = trace m @ evs1"
    and 2: "\<forall>e\<in>set evs1. \<forall>i b. e = Updated i b \<longrightarrow> i = iteration m"
    and 3: "list_ex is_stop evs1 = s1"
    and 4: "halts_after_stop evs1"
    and 5: "s1 \<longrightarrow> var m1 = best_var E m1"
    by blast
  show ?case
  proof (cases s1)
    case True
    with continue(4) have "m' = m1" "err = None"
      by (simp_all add: fit_loop_stopped)
    moreover from True fit_round_iteration [OF continue(3)] have "iteration m1 = iteration m"
      by simp
    moreover from 2 have "\<And>i b. Updated i b \<in> set evs1 \<Longrightarrow> i = iteration m"
      by blast
    ultimately show ?thesis using 1 4 5 True
      by - (rule exI [of _ evs1], auto)
  next
    case False
    from continue(5) obtain evs2 where
      6: "trace m' = trace m1 @ evs2" and 7: "halts_after_stop evs2"
      and 8: "err = None \<longrightarrow> (\<forall>i. Updated i True \<in> set evs2 \<longrightarrow>
            var m' = best_var E m' \<and> iteration m' = i)"
      by blast
    from False 3 have ns: "\<not> list_ex is_stop evs1" by simp
    then have 9: "\<And>i. Updated i True \<notin> set evs1"
      by (auto simp add: list_ex_iff)
    from 1 6 have "trace m' = trace m @ (evs1 @ evs2)" by simp
    moreover from ns 7 have "halts_after_stop (evs1 @ evs2)"
      by (simp add: halts_after_stop_append)
    moreover from 8 9 have "err = None \<longrightarrow> (\<forall>i. Updated i True \<in> set (evs1 @ evs2) \<longrightarrow>
            var m' = best_var E m' \<and> iteration m' = i)"
      by auto
    ultimately show ?thesis by blast
  qed
qed

text \<open>Without validation data the loop steps once per iteration up to \<open>max_iterations\<close>.\<close>

lemma fit_loop_steps:
  assumes "fit_loop E c A m v s = (m', err)" and "val A = None"
  shows "err = None \<longrightarrow> \<not> s \<longrightarrow> iteration m \<le> max_iterations c \<longrightarrow>
     (\<exists>evs. trace m' = trace m @ evs
        \<and> length (filter is_step evs) = nat (max_iterations c - iteration m))"
  using assms(1)
proof (induction rule: fit_loop_induct)
  case (finished m v s)
  then show ?case by auto
next
  case (raised m v s m1 e)
  show ?case by simp
next
  case (continue m v s m1 v1 s1 m' err)
  from fit_round_summary [OF continue(3)] assms(2) obtain evs1 where
    1: "trace m1 = trace m @ evs1"
    and 2: "length (filter is_step evs1) = 1"
    and 3: "\<not> s1"
    by blast
  from 3 fit_round_iteration [OF continue(3)] have i: "iteration m1 = iteration m + 1"
    by simp
  show ?case
  proof (intro impI)
    assume e: "err = None"
    from continue(2) i have "iteration m1 \<le> max_iterations c" by simp
    with continue(5) e 3 obtain evs2 where
      4: "trace m' = trace m1 @ evs2"
      and 5: "length (filter is_step evs2) = nat (max_iterations c - iteration m1)"
      by blast
    from 1 4 have "trace m' = trace m @ (evs1 @ evs2)" by simp
    moreover from 2 5 i continue(2)
    have "length (filter is_step (evs1 @ evs2)) = nat (max_iterations c - iteration m)"
      by simp
    ultimately show "\<exists>evs. trace m' = trace m @ evs
        \<and> length (filter is_step evs) = nat (max_iterations c - iteration m)"
      by blast
  qed
qed

lemmas eval_defs = fit_round_def draw_batch_def step_def step_default_def objective_cost_def
      layerwise_learning_def cost_def linalg_norm_def unpack_pair_def validate_def report_def
      periodic_snapshot_def plot_def demo_defs

lemma categorical_val: "(val (categorical E A) = None) = (val A = None)"
  by (simp add: categorical_def split: option.splits prod.splits)

lemma tosave_frame: "tosave c (m\<lparr>files := fs, trace := t\<rparr>) = tosave c m"
  by (simp add: tosave_def)

lemma snapshot_best:
  assumes "snapshot c m True = Inr m'"
  shows "trace m' = trace m @ [Snapshotted True (best_file c)]"
    and "var m' = var m" and "iteration m' = iteration m" and "early_stopper m' = early_stopper m"
    and "\<exists>arrays. tosave c m' = Inr arrays \<and> files m' (best_file c) = Some (savez arrays)"
proof -
  from assms obtain arrays where a: "tosave c m = Inr arrays"
    and m': "m' = m\<lparr>files := (files m)(best_file c \<mapsto> savez arrays),
                 trace := trace m @ [Snapshotted True (best_file c)]\<rparr>"
    by (auto simp add: snapshot_def snapshot_file_def best_file_def Let_def split: sum.splits)
  from m' show "trace m' = trace m @ [Snapshotted True (best_file c)]"
    and "var m' = var m" and "iteration m' = iteration m" and "early_stopper m' = early_stopper m"
    by simp_all
  from a m' show "\<exists>arrays. tosave c m' = Inr arrays \<and> files m' (best_file c) = Some (savez arrays)"
    by (simp add: tosave_frame)
qed

text \<open>A call of \<open>fit\<close> on a built model: the loop from iteration 0, then the best snapshot.\<close>

lemma fit_built:
  assumes "fit E c A m = (m', err)" and "built m"
  obtains A' m1 err1 where "(val A' = None) = (val A = None)"
    and "fit_loop E c A' (m\<lparr>iteration := 0\<rparr>) (var m) False = (m1, err1)"
    and "err1 \<noteq> None \<longrightarrow> m' = m1 \<and> err = err1"
    and "err1 = None \<longrightarrow> (\<exists>e. snapshot c m1 True = Inl e \<and> m' = m1 \<and> err = Some e)
           \<or> (snapshot c m1 True = Inr m' \<and> err = None)"
proof -
  define A' where "A' = (if type_problem c = ''multiclassification'' then categorical E A else A)"
  obtain m1 err1 where l: "fit_loop E c A' (m\<lparr>iteration := 0\<rparr>) (var m) False = (m1, err1)"
    by (metis prod.exhaust)
  have 1: "(val A' = None) = (val A = None)"
    by (simp add: A'_def categorical_val)
  from assms l have 2: "err1 \<noteq> None \<longrightarrow> m' = m1 \<and> err = err1"
    by (auto simp add: fit_def Let_def A'_def)
  from assms l have 3: "err1 = None \<longrightarrow>
        (\<exists>e. snapshot c m1 True = Inl e \<and> m' = m1 \<and> err = Some e)
           \<or> (snapshot c m1 True = Inr m' \<and> err = None)"
    by (auto simp add: fit_def Let_def A'_def split: sum.splits)
  show ?thesis by (rule that [OF 1 l 2 3])
qed


text \<open>
  Claim C6. A call of \<open>fit\<close> that returns has written the best snapshot of the final
  parameters as its last event and no other best snapshot; with \<open>max_iterations = 10\<close>, no
  validation data and \<open>snapshot_frequency = 0\<close> it has taken exactly 10 gradient steps and
  written no periodic snapshot. This holds whether or not the early stopper ended the loop.
\<close>

theorem fit_steps_and_snapshots:
  assumes "fit E c A m = (m', None)"
  shows "(\<exists>arrays. tosave c m' = Inr arrays \<and> files m' (best_file c) = Some (savez arrays))
       \<and> (\<exists>evs. trace m' = trace m @ evs @ [Snapshotted True (best_file c)]
             \<and> \<not> list_ex is_best_snapshot evs
             \<and> (max_iterations c = 10 \<and> val A = None \<and> snapshot_frequency c = 0 \<longrightarrow>
                  length (filter is_step evs) = 10 \<and> \<not> list_ex is_periodic_snapshot evs))"
proof -
  from assms have b: "built m"
    by (auto simp add: fit_def split: if_splits)
  from assms b obtain A' m1 err1 where v: "(val A' = None) = (val A = None)"
    and l: "fit_loop E c A' (m\<lparr>iteration := 0\<rparr>) (var m) False = (m1, err1)"
    and e1: "err1 \<noteq> None \<longrightarrow> m' = m1 \<and> None = err1"
    and e2: "err1 = None \<longrightarrow> (\<exists>e. snapshot c m1 True = Inl e \<and> m' = m1 \<and> None = Some e)
           \<or> (snapshot c m1 True = Inr m' \<and> (None :: error option) = None)"
    by (rule fit_built)
  from e1 have n: "err1 = None" by auto
  with e2 have s: "snapshot c m1 True = Inr m'" by auto
  from fit_loop_events [OF l] obtain evs where
    t: "trace m1 = trace m @ evs"
    and ev: "\<forall>e\<in>set evs. \<not> is_best_snapshot e
           \<and> (snapshot_frequency c \<le> 0 \<longrightarrow> \<not> is_periodic_snapshot e)"
    by auto
  have steps: "length (filter is_step evs) = 10" if "max_iterations c = 10" "val A = None"
  proof -
    from that v have "val A' = None" by simp
    from fit_loop_steps [OF l this] n that(1) obtain evs' where
      "trace m1 = trace (m\<lparr>iteration := 0\<rparr>) @ evs'" "length (filter is_step evs') = 10"
      by auto
    with t show ?thesis by simp
  qed
  from t snapshot_best(1) [OF s]
  have "trace m' = trace m @ evs @ [Snapshotted True (best_file c)]" by simp
  moreover from ev have "\<not> list_ex is_best_snapshot evs"
    by (simp add: list_ex_iff)
  moreover from ev have "snapshot_frequency c = 0 \<longrightarrow> \<not> list_ex is_periodic_snapshot evs"
    by (simp add: list_ex_iff)
  moreover have "max_iterations c = 10 \<and> val A = None \<and> snapshot_frequency c = 0
      \<longrightarrow> length (filter is_step evs) = 10"
    using steps by simp
  ultimately have "\<exists>evs. trace m' = trace m @ evs @ [Snapshotted True (best_file c)]
             \<and> \<not> list_ex is_best_snapshot evs
             \<and> (max_iterations c = 10 \<and> val A = None \<and> snapshot_frequency c = 0 \<longrightarrow>
                  length (filter is_step evs) = 10 \<and> \<not> list_ex is_periodic_snapshot evs)"
    by - (rule exI [of _ evs], simp)
  with snapshot_best(5) [OF s] show ?thesis by simp
qed

text \<open>
  Claim C7. In every call of \<open>fit\<close>, also one that raises, the early stopper's \<open>update\<close> is
  invoked only at an iteration greater than twice the patience and only with validation
  data; after a stop signal no further gradient step is taken; and when \<open>fit\<close> returns after
  a stop signal, \<open>var\<close> is \<open>get_best_var()\<close> and the iteration counter is still the one at
  which the stop was signalled.
\<close>

theorem fit_early_stopping:
  assumes "fit E c A m = (m', err)"
  shows "\<exists>evs. trace m' = trace m @ evs
      \<and> (\<forall>i b. Updated i b \<in> set evs \<longrightarrow> 2 * early_stopper_patience c < i \<and> val A \<noteq> None)
      \<and> halts_after_stop evs
      \<and> (err = None \<longrightarrow> (\<forall>i. Updated i True \<in> set evs \<longrightarrow>
             var m' = best_var E m' \<and> iteration m' = i))"
proof (cases "built m")
  case False
  with assms have "m' = m" by (simp add: fit_def)
  then show ?thesis by simp
next
  case True
  from assms True obtain A' m1 err1 where v: "(val A' = None) = (val A = None)"
    and l: "fit_loop E c A' (m\<lparr>iteration := 0\<rparr>) (var m) False = (m1, err1)"
    and e1: "err1 \<noteq> None \<longrightarrow> m' = m1 \<and> err = err1"
    and e2: "err1 = None \<longrightarrow> (\<exists>e. snapshot c m1 True = Inl e \<and> m' = m1 \<and> err = Some e)
           \<or> (snapshot c m1 True = Inr m' \<and> err = None)"
    by (rule fit_built)
  from fit_loop_events [OF l] obtain evs where
    t: "trace m1 = trace m @ evs"
    and ev: "\<forall>e\<in>set evs. \<forall>i b. e = Updated i b \<longrightarrow>
               2 * early_stopper_patience c < i \<and> val A' \<noteq> None"
    by auto
  from ev v have u: "\<forall>i b. Updated i b \<in> set evs \<longrightarrow>
      2 * early_stopper_patience c < i \<and> val A \<noteq> None"
    by blast
  from fit_loop_stop [OF l] t have h: "halts_after_stop evs"
    and r: "err1 = None \<longrightarrow> (\<forall>i. Updated i True \<in> set evs \<longrightarrow>
            var m1 = best_var E m1 \<and> iteration m1 = i)"
    by auto
  show ?thesis
  proof (cases "snapshot c m1 True = Inr m' \<and> err = None \<and> err1 = None")
    case False
    with e1 e2 have "m' = m1" "err \<noteq> None" by auto
    with t u h show ?thesis
      by - (rule exI [of _ evs], auto)
  next
    case s: True
    note b = snapshot_best [of c m1 m']
    from s t b(1) have "trace m' = trace m @ (evs @ [Snapshotted True (best_file c)])"
      by simp
    moreover from u have "\<forall>i b. Updated i b \<in> set (evs @ [Snapshotted True (best_file c)])
        \<longrightarrow> 2 * early_stopper_patience c < i \<and> val A \<noteq> None"
      by simp
    moreover from h have "halts_after_stop (evs @ [Snapshotted True (best_file c)])"
      by (rule halts_after_stop_snoc) simp
    moreover from s r b(2,3,4) have "err = None \<longrightarrow>
        (\<forall>i. Updated i True \<in> set (evs @ [Snapshotted True (best_file c)]) \<longrightarrow>
             var m' = best_var E m' \<and> iteration m' = i)"
      by (simp add: best_var_def)
    ultimately show ?thesis
      by - (rule exI [of _ "evs @ [Snapshotted True (best_file c)]"], simp)
  qed
qed


lemma regression_config_fields:
  "max_iterations regression_config = 10" "prefix regression_config = ''qnn''"
  "interface regression_config = ''autograd''" "type_problem regression_config = ''regression''"
  "snapshot_frequency regression_config = 0" "early_stopper_patience regression_config = 0"
  by (simp_all add: regression_config_def)

lemma str_nat_0: "str_nat 0 = ''0''"
  by code_simp

lemmas snapshot_eval = snapshot_def tosave_def snapshot_file_def savez_def enumerate_eq_zip
  str_nat_0 Let_def

lemma quiet_round:
  "fit_round one_weight_env regression_config quiet_args
    \<lparr>built = True, iteration = i, var = x, optimizer = [], early_stopper = Some [],
      files = fs, rng = 0, trace = t\<rparr> (NpTensor True (Nd [Scalar a]))
   = (\<lparr>built = True, iteration = i + 1, var = NpTensor True (Nd [Scalar 0]), optimizer = [],
       early_stopper = Some [], files = fs, rng = 0, trace = t @ [Stepped i]\<rparr>,
      Inr (NpTensor True (Nd [Scalar 0]), False))"
  by (simp add: eval_defs quiet_args_def field_simps)

lemma quiet_run:
  "fit one_weight_env regression_config quiet_args (fresh_model half)
   = (\<lparr>built = True, iteration = 10, var = NpTensor True (Nd [Scalar 0]), optimizer = [],
       early_stopper = Some [],
       files = [''qnn_best_weights.npz'' \<mapsto> [(''arr_0'', Scalar 0)]], rng = 0,
       trace = [Stepped 0, Stepped 1, Stepped 2, Stepped 3, Stepped 4, Stepped 5, Stepped 6,
                Stepped 7, Stepped 8, Stepped 9, Snapshotted True ''qnn_best_weights.npz'']\<rparr>,
      None)"
  by (simp add: fit_def fit_loop.simps quiet_round half_def fresh_model_def
      regression_config_fields snapshot_eval)

theorem fit_steps_and_snapshots_witness:
  "fit one_weight_env regression_config quiet_args (fresh_model half)
   = (\<lparr>built = True, iteration = 10, var = NpTensor True (Nd [Scalar 0]), optimizer = [],
       early_stopper = Some [],
       files = [''qnn_best_weights.npz'' \<mapsto> [(''arr_0'', Scalar 0)]], rng = 0,
       trace = [Stepped 0, Stepped 1, Stepped 2, Stepped 3, Stepped 4, Stepped 5, Stepped 6,
                Stepped 7, Stepped 8, Stepped 9, Snapshotted True ''qnn_best_weights.npz'']\<rparr>,
      None)
   \<and> max_iterations regression_config = 10 \<and> val quiet_args = None
   \<and> snapshot_frequency regression_config = 0
   \<and> (\<exists>evs. [Stepped 0, Stepped 1, Stepped 2, Stepped 3, Stepped 4, Stepped 5, Stepped 6,
                Stepped 7, Stepped 8, Stepped 9, Snapshotted True ''qnn_best_weights.npz'']
               = evs @ [Snapshotted True (best_file regression_config)]
          \<and> \<not> list_ex is_best_snapshot evs
          \<and> length (filter is_step evs) = 10 \<and> \<not> list_ex is_periodic_snapshot evs)"
proof -
  have "max_iterations regression_config = 10 \<and> val quiet_args = None
      \<and> snapshot_frequency regression_config = 0"
    by (simp add: regression_config_fields quiet_args_def)
  with fit_steps_and_snapshots [OF quiet_run] quiet_run show ?thesis
    by (simp add: fresh_model_def)
qed

lemma validated_run:
  "fit one_weight_env regression_config validated_args (fresh_model half)
   = (\<lparr>built = True, iteration = 1, var = NpTensor True (Nd [Scalar 0]), optimizer = [],
       early_stopper = Some [(0, NpTensor True (Nd [Scalar 0]))],
       files = [''qnn_best_weights.npz'' \<mapsto> [(''arr_0'', Scalar 0)]], rng = 0,
       trace = [Stepped 0, Plotted 0, Stepped 1, Updated 1 True, Plotted 1,
                Snapshotted True ''qnn_best_weights.npz'']\<rparr>,
      None)"
  by (simp add: fit_def fit_loop.simps eval_defs validated_args_def snapshot_eval)

theorem fit_early_stopping_witness:
  "fit one_weight_env regression_config validated_args (fresh_model half)
   = (\<lparr>built = True, iteration = 1, var = NpTensor True (Nd [Scalar 0]), optimizer = [],
       early_stopper = Some [(0, NpTensor True (Nd [Scalar 0]))],
       files = [''qnn_best_weights.npz'' \<mapsto> [(''arr_0'', Scalar 0)]], rng = 0,
       trace = [Stepped 0, Plotted 0, Stepped 1, Updated 1 True, Plotted 1,
                Snapshotted True ''qnn_best_weights.npz'']\<rparr>,
      None)
   \<and> 2 * early_stopper_patience regression_config < 1 \<and> val validated_args \<noteq> None
   \<and> halts_after_stop [Stepped 0, Plotted 0, Stepped 1, Updated 1 True, Plotted 1,
                Snapshotted True ''qnn_best_weights.npz'']
   \<and> NpTensor True (Nd [Scalar 0])
       = es_get_best_var one_weight_env [(0, NpTensor True (Nd [Scalar 0]))]"
proof -
  from fit_early_stopping [OF validated_run]
  have "halts_after_stop [Stepped 0, Plotted 0, Stepped 1, Updated 1 True, Plotted 1,
                Snapshotted True ''qnn_best_weights.npz'']
    \<and> 2 * early_stopper_patience regression_config < 1 \<and> val validated_args \<noteq> None
    \<and> NpTensor True (Nd [Scalar 0])
       = es_get_best_var one_weight_env [(0, NpTensor True (Nd [Scalar 0]))]"
    by (auto simp add: fresh_model_def best_var_def)
  with validated_run show ?thesis by simp
qed

end
